theory Spec2Isabelle
  imports Main "HOL-Library.Word"
begin

section \<open>JavaScript values used by the akari protocol shard\<close>

subsection \<open>Strings\<close>

text \<open>
  A JavaScript string is a sequence of 16-bit code units. \<open>slice\<close>, \<open>indexOf\<close>,
  \<open>trim\<close>, \<open>+\<close> and the key comparison of \<open>Map\<close> all work on code units, so a string
  is modelled as a list of them. \<open>js\<close> embeds an ASCII literal of the source.
\<close>

type_synonym code_unit = "16 word"
type_synonym jsstring = "code_unit list"

definition js :: "string \<Rightarrow> jsstring" where
  "js s = map of_char s"

text \<open>
  \<open>String.prototype.trim\<close> removes WhiteSpace and LineTerminator code points
  (ECMA-262): TAB, LF, VT, FF, CR, SP, NBSP, U+1680, U+2000..U+200A, U+2028, U+2029,
  U+202F, U+205F, U+3000 and U+FEFF. All of them are single code units.
\<close>

definition is_js_whitespace :: "code_unit \<Rightarrow> bool" where
  "is_js_whitespace c =
     (c = 0x09 \<or> c = 0x0A \<or> c = 0x0B \<or> c = 0x0C \<or> c = 0x0D \<or> c = 0x20 \<or>
      c = 0xA0 \<or> c = 0x1680 \<or> (0x2000 \<le> c \<and> c \<le> 0x200A) \<or>
      c = 0x2028 \<or> c = 0x2029 \<or> c = 0x202F \<or> c = 0x205F \<or> c = 0x3000 \<or>
      c = 0xFEFF)"

definition js_trim :: "jsstring \<Rightarrow> jsstring" where
  "js_trim s = rev (dropWhile is_js_whitespace (rev (dropWhile is_js_whitespace s)))"

text \<open>
  \<open>s.slice(start, end)\<close>: a negative index counts from the end of the string, every
  index is clamped to \<open>0..s.length\<close>, and the result is empty when the clamped end is
  not after the clamped start. \<open>fin\<close> is the \<open>end\<close> argument, \<open>None\<close> when it is omitted.
\<close>

definition js_slice :: "jsstring \<Rightarrow> int \<Rightarrow> int option \<Rightarrow> jsstring" where
  "js_slice s start fin =
     (let len = int (length s);
          from = (if start < 0 then max (len + start) 0 else min start len);
          to = (case fin of
                  None \<Rightarrow> len
                | Some e \<Rightarrow> if e < 0 then max (len + e) 0 else min e len)
      in take (nat (to - from)) (drop (nat from) s))"

text \<open>
  \<open>s.indexOf(pat)\<close>: the smallest position at which \<open>pat\<close> occurs in \<open>s\<close>, and \<open>-1\<close>
  when it occurs nowhere.
\<close>

fun js_indexOf :: "jsstring \<Rightarrow> jsstring \<Rightarrow> int" where
  "js_indexOf [] pat = (if pat = [] then 0 else - 1)"
| "js_indexOf (c # cs) pat =
     (if take (length pat) (c # cs) = pat then 0
      else (let k = js_indexOf cs pat in if k < 0 then - 1 else k + 1))"

subsection \<open>Errors, requests and responses\<close>

text \<open>
  A thrown \<open>Error\<close> object: its \<open>message\<close>, and the \<open>code\<close> property that Node's
  system errors carry (\<open>None\<close> when the property is undefined, as for \<open>new Error(msg)\<close>).
\<close>

record js_error =
  code :: "jsstring option"
  message :: jsstring

definition Error :: "jsstring \<Rightarrow> js_error" where
  "Error msg = \<lparr>code = None, message = msg\<rparr>"

type_synonym bytes = "8 word list"

text \<open>A body is the string given to the \<open>Response\<close> constructor, or a stream of bytes.\<close>

datatype body = Text jsstring | Stream bytes

record request =
  url :: jsstring
  req_method :: jsstring
  req_headers :: "(jsstring \<times> jsstring) list"
  req_body :: "bytes option"

record response =
  status :: nat
  statusText :: jsstring
  headers :: "(jsstring \<times> jsstring) list"
  resp_body :: body

text \<open>
  The second argument of \<open>new Response(body, init)\<close>. A member that the source leaves
  out is \<open>None\<close>; the constructor then takes status 200 and the empty status text.
\<close>

record response_init =
  init_status :: "nat option"
  init_statusText :: "jsstring option"
  init_headers :: "(jsstring \<times> jsstring) list"

definition new_Response :: "body \<Rightarrow> response_init \<Rightarrow> response" where
  "new_Response b init =
     \<lparr>status = (case init_status init of None \<Rightarrow> 200 | Some st \<Rightarrow> st),
      statusText = (case init_statusText init of None \<Rightarrow> [] | Some t \<Rightarrow> t),
      headers = init_headers init,
      resp_body = b\<rparr>"

text \<open>
  A domain handler \<open>(uri, req) => Promise<Response> | Response\<close>. Awaiting it gives
  the response, or the error it threw or rejected with.
\<close>

type_synonym handler = "jsstring \<Rightarrow> request \<Rightarrow> js_error + response"

section \<open>The shard\<close>

text \<open>
  The fields of \<open>AkariProtocolMain\<close> that its methods read or write: the domain
  registry, a \<open>Map\<close> from domain to handler (its keys compare as whole strings), and
  the \<open>getType\<close> function of the \<open>Mime\<close> object that \<open>onInit\<close> stores. No method
  iterates over the registry, so the insertion order of the \<open>Map\<close> is left out. The
  field \<open>_mime\<close> is declared as a \<open>Mime\<close> and is taken as assigned.
\<close>

record shard =
  domainRegistry :: "jsstring \<rightharpoonup> handler"
  mime_getType :: "jsstring \<Rightarrow> jsstring option"

section \<open>The scheme interceptor\<close>

definition AKARI_PROXY_PROTOCOL :: jsstring where
  "AKARI_PROXY_PROTOCOL = js ''akari''"

text \<open>
  Lines 57 to 60 of \<open>_handlePartitionAkariProtocol\<close>: the domain and the remainder
  that the handler callback computes from \<open>req.url\<close>.
\<close>

definition parse_url :: "jsstring \<Rightarrow> jsstring \<times> jsstring" where
  "parse_url u =
     (let path1 = js_slice u (int (length (AKARI_PROXY_PROTOCOL @ js ''://''))) None;
          index = js_indexOf path1 (js ''/'');
          domain = js_trim (js_slice path1 0 (Some index));
          uri = js_trim (js_slice path1 (index + 1) None)
      in (domain, uri))"

text \<open>The response of lines 67 to 71, for a domain without handler.\<close>

definition no_handler_response :: "request \<Rightarrow> response" where
  "no_handler_response req =
     new_Response (Text (js ''No handler for '' @ url req))
       \<lparr>init_status = Some 404,
        init_statusText = Some (js ''Not Found''),
        init_headers = [(js ''Content-Type'', js ''text/plain'')]\<rparr>"

text \<open>
  The callback that \<open>_handlePartitionAkariProtocol\<close> installs. An error of the
  handler is not caught.
\<close>

definition handle_akari :: "shard \<Rightarrow> request \<Rightarrow> js_error + response" where
  "handle_akari this req =
     (case parse_url (url req) of
        (domain, uri) \<Rightarrow>
          (case domainRegistry this domain of
             Some handler \<Rightarrow> handler uri req
           | None \<Rightarrow> Inr (no_handler_response req)))"

section \<open>The domain registry\<close>

text \<open>
  \<open>registerDomain\<close> and \<open>unregisterDomain\<close> return what the call threw (\<open>Inl\<close>) or
  that it returned (\<open>Inr\<close>), together with the shard after the call.
\<close>

definition registerDomain :: "shard \<Rightarrow> jsstring \<Rightarrow> handler \<Rightarrow> (js_error + unit) \<times> shard" where
  "registerDomain this domain handler =
     (if domainRegistry this domain \<noteq> None
      then (Inl (Error (js ''Domain '' @ domain @ js '' is already registered'')), this)
      else (Inr (), this\<lparr>domainRegistry := (domainRegistry this)(domain \<mapsto> handler)\<rparr>))"

definition unregisterDomain :: "shard \<Rightarrow> jsstring \<Rightarrow> (js_error + unit) \<times> shard" where
  "unregisterDomain this domain =
     (if \<not> (domainRegistry this domain \<noteq> None)
      then (Inl (Error (js ''Domain '' @ domain @ js '' is not registered'')), this)
      else (Inr (), this\<lparr>domainRegistry := (domainRegistry this)(domain := None)\<rparr>))"

section \<open>The local file responder\<close>

text \<open>
  What \<open>_toLocalFileResponse\<close> asks of Node at the time of the call. \<open>fs_access p\<close> is
  the error with which \<open>fs.promises.access(p, F_OK | R_OK)\<close> rejects (\<open>None\<close> when
  it resolves), \<open>fs_stat p\<close> the outcome of \<open>fs.promises.stat(p)\<close>,
  \<open>fs_createReadStream p\<close> the bytes that the read stream of \<open>p\<close> delivers and
  \<open>date_toUTCString\<close> the value of \<open>new Date().toUTCString()\<close>. The two file system
  calls are separate members, so they may disagree, as they can when the file changes
  between them.
\<close>

record stats =
  isDirectory :: bool
  size :: nat

record node_env =
  path_resolve :: "jsstring \<Rightarrow> jsstring"
  fs_access :: "jsstring \<Rightarrow> js_error option"
  fs_stat :: "jsstring \<Rightarrow> js_error + stats"
  fs_createReadStream :: "jsstring \<Rightarrow> bytes"
  date_toUTCString :: jsstring
  Number_toString_large :: "nat \<Rightarrow> jsstring"

text \<open>
  \<open>stats.size.toString()\<close>. \<open>stats.size\<close> is a Number, a double whose value is an
  integer; \<open>size\<close> is that value. Below \<open>2^53\<close> a Number holds every integer exactly,
  so \<open>size\<close> is the byte count of the file, and \<open>Number.prototype.toString\<close> prints
  the integer as its decimal digits, most significant first and without leading zero.
  From \<open>2^53\<close> on, a Number holds only some of the integers, and \<open>toString\<close> prints
  the shortest digits that read back as the same Number, filled up with zeros: for
  \<open>2^60\<close> it prints \<open>1152921504606847000\<close>. That part of the engine is not modelled;
  it is the member \<open>Number_toString_large\<close> of the environment.
\<close>

fun decimal_digits :: "nat \<Rightarrow> jsstring" where
  "decimal_digits n =
     (if n < 10 then [of_nat (48 + n)]
      else decimal_digits (n div 10) @ [of_nat (48 + n mod 10)])"

definition Number_toString :: "node_env \<Rightarrow> nat \<Rightarrow> jsstring" where
  "Number_toString env n =
     (if n < 2 ^ 53 then decimal_digits n else Number_toString_large env n)"

text \<open>\<open>a || b\<close> on a string or null: \<open>b\<close> when \<open>a\<close> is null or the empty string.\<close>

definition js_or :: "jsstring option \<Rightarrow> jsstring \<Rightarrow> jsstring" where
  "js_or a b = (case a of None \<Rightarrow> b | Some t \<Rightarrow> if t = [] then b else t)"

text \<open>The \<open>try\<close> block, lines 80 to 100: the response it returns or the error it throws.\<close>

definition local_file_try :: "shard \<Rightarrow> node_env \<Rightarrow> jsstring \<Rightarrow> jsstring \<Rightarrow> js_error + response" where
  "local_file_try this env uri filePath =
     (case fs_access env filePath of
        Some error \<Rightarrow> Inl error
      | None \<Rightarrow>
          (case fs_stat env filePath of
             Inl error \<Rightarrow> Inl error
           | Inr stats \<Rightarrow>
               if isDirectory stats
               then Inr (new_Response (Text (js ''Cannot read directory: '' @ uri))
                      \<lparr>init_status = Some 403,
                       init_statusText = None,
                       init_headers = [(js ''Content-Type'', js ''text/plain'')]\<rparr>)
               else Inr (new_Response (Stream (fs_createReadStream env filePath))
                      \<lparr>init_status = None,
                       init_statusText = None,
                       init_headers =
                         [(js ''Access-Control-Allow-Origin'', js ''*''),
                          (js ''Connection'', js ''keep-alive''),
                          (js ''Content-Type'',
                             js_or (mime_getType this filePath) (js ''application/octet-stream'')),
                          (js ''Cache-Control'', js ''no-cache''),
                          (js ''Content-Length'', Number_toString env (size stats)),
                          (js ''Date'', date_toUTCString env)]\<rparr>)))"

text \<open>The \<open>catch\<close> block, lines 101 to 118.\<close>

definition local_file_catch :: "js_error \<Rightarrow> response" where
  "local_file_catch error =
     (if code error = Some (js ''ENOENT'')
      then new_Response (Text (message error))
             \<lparr>init_status = Some 404,
              init_statusText = None,
              init_headers = [(js ''Content-Type'', js ''text/plain'')]\<rparr>
      else if code error = Some (js ''EACCES'')
      then new_Response (Text (message error))
             \<lparr>init_status = Some 403,
              init_statusText = None,
              init_headers = [(js ''Content-Type'', js ''text/plain'')]\<rparr>
      else new_Response (Text (message error))
             \<lparr>init_status = Some 500,
              init_statusText = None,
              init_headers = [(js ''Content-Type'', js ''text/plain'')]\<rparr>)"

definition toLocalFileResponse :: "shard \<Rightarrow> node_env \<Rightarrow> jsstring \<Rightarrow> response" where
  "toLocalFileResponse this env uri =
     (let filePath = path_resolve env uri
      in case local_file_try this env uri filePath of
           Inr r \<Rightarrow> r
         | Inl error \<Rightarrow> local_file_catch error)"

section \<open>The stream adapter\<close>

text \<open>
  One \<open>await reader.read()\<close>: a chunk (\<open>done\<close> false), the end of the stream (\<open>done\<close>
  true), or a rejection. A reader is a state and the function that reads from it.
\<close>

datatype read_result = Chunk bytes | Done | Rejected js_error

type_synonym 's reader = "'s \<Rightarrow> read_result \<times> 's"

text \<open>
  The async generator of \<open>convertWebStreamToNodeStream\<close>: the values it has yielded
  when it returns. The loop has no bound, so the result is \<open>None\<close> when it never
  returns.
\<close>

partial_function (option) read_loop :: "'s reader \<Rightarrow> 's \<Rightarrow> bytes list \<Rightarrow> bytes list option" where
  "read_loop read s yielded =
     (case read s of
        (Chunk v, s') \<Rightarrow> read_loop read s' (yielded @ [v])
      | (Done, s') \<Rightarrow> Some yielded
      | (Rejected e, s') \<Rightarrow> Some yielded)"

text \<open>
  What a consumer of the Node stream observes. \<open>Readable.from\<close> pushes every value
  that the iterator yields, in order, and ends the stream when the iterator returns.
\<close>

datatype stream_event = Data bytes | End

definition Readable_from :: "bytes list \<Rightarrow> stream_event list" where
  "Readable_from yielded = map Data yielded @ [End]"

definition convertWebStreamToNodeStream :: "'s reader \<Rightarrow> 's \<Rightarrow> stream_event list option" where
  "convertWebStreamToNodeStream read s = map_option Readable_from (read_loop read s [])"

section \<open>Notions used to state the properties\<close>

text \<open>
  The pull side delivers exactly the chunks \<open>cs\<close>, in this order, and then reports
  \<open>done\<close>.
\<close>

fun reads_chunks :: "'s reader \<Rightarrow> 's \<Rightarrow> bytes list \<Rightarrow> bool" where
  "reads_chunks read s [] = (fst (read s) = Done)"
| "reads_chunks read s (c # cs) = (fst (read s) = Chunk c \<and> reads_chunks read (snd (read s)) cs)"

text \<open>
  \<open>t\<close> is \<open>s\<close> without its surrounding whitespace: \<open>t\<close> lies in \<open>s\<close> between two runs of
  whitespace and neither begins nor ends with whitespace. What lies inside \<open>t\<close>,
  whitespace included, is kept.
\<close>

definition trimmed_from :: "jsstring \<Rightarrow> jsstring \<Rightarrow> bool" where
  "trimmed_from s t =
     (\<exists>pre suf. s = pre @ t @ suf \<and>
        list_all is_js_whitespace pre \<and> list_all is_js_whitespace suf \<and>
        (t = [] \<or> (\<not> is_js_whitespace (hd t) \<and> \<not> is_js_whitespace (last t))))"

text \<open>
  \<open>ds\<close> is the decimal numeral of \<open>n\<close>: a non-empty string of the digits \<open>0\<close> to \<open>9\<close>,
  without leading zero unless it is the string \<open>0\<close>, whose value is \<open>n\<close>.
\<close>

definition is_decimal_digit :: "code_unit \<Rightarrow> bool" where
  "is_decimal_digit d = (48 \<le> unat d \<and> unat d \<le> 57)"

definition decimal_value :: "jsstring \<Rightarrow> nat" where
  "decimal_value ds = foldl (\<lambda>a d. 10 * a + (unat d - 48)) 0 ds"

definition decimal_numeral_of :: "nat \<Rightarrow> jsstring \<Rightarrow> bool" where
  "decimal_numeral_of n ds =
     (ds \<noteq> [] \<and> list_all is_decimal_digit ds \<and> (ds = js ''0'' \<or> hd ds \<noteq> 48) \<and>
      decimal_value ds = n)"

section \<open>Concrete inputs\<close>

text \<open>A handler that answers with the remainder it was given.\<close>

definition echo_handler :: handler where
  "echo_handler uri req =
     Inr (new_Response (Text uri)
       \<lparr>init_status = None, init_statusText = None, init_headers = []\<rparr>)"

definition other_handler :: handler where
  "other_handler uri req = Inl (Error (js ''unavailable''))"

text \<open>The shard after construction: no domain is registered, no type is known.\<close>

definition fresh_shard :: shard where
  "fresh_shard = \<lparr>domainRegistry = Map.empty, mime_getType = (\<lambda>p. None)\<rparr>"

definition get_request :: "jsstring \<Rightarrow> request" where
  "get_request u = \<lparr>url = u, req_method = js ''GET'', req_headers = [], req_body = None\<rparr>"

text \<open>A reader over a stream that holds the given chunks and is then closed.\<close>

fun list_reader :: "bytes list reader" where
  "list_reader [] = (Done, [])"
| "list_reader (c # cs) = (Chunk c, cs)"



text \<open>
  A file system with the readable files \<open>/srv/a.txt\<close> of five bytes and \<open>/srv/raw\<close> of
  two bytes, the directory \<open>/srv/dir\<close>, the unreadable file \<open>/srv/key\<close>, the path
  \<open>/srv/loop\<close> whose access fails with \<open>ELOOP\<close>, and nothing else; the working
  directory is \<open>/srv\<close>. No size reaches \<open>2^53\<close>, so the digits for such sizes are
  never asked for; the member for them is constant.
\<close>

definition system_error :: "string \<Rightarrow> string \<Rightarrow> js_error" where
  "system_error c m = \<lparr>code = Some (js c), message = js m\<rparr>"

definition example_env :: node_env where
  "example_env =
     \<lparr>path_resolve = (\<lambda>uri. js ''/srv/'' @ uri),
      fs_access = (\<lambda>p.
         if p = js ''/srv/a.txt'' \<or> p = js ''/srv/raw'' \<or> p = js ''/srv/dir'' then None
         else if p = js ''/srv/key'' then Some (system_error ''EACCES'' ''EACCES: permission denied'')
         else if p = js ''/srv/loop'' then Some (system_error ''ELOOP'' ''ELOOP: too many symbolic links'')
         else Some (system_error ''ENOENT'' ''ENOENT: no such file or directory'')),
      fs_stat = (\<lambda>p.
         if p = js ''/srv/a.txt'' then Inr \<lparr>isDirectory = False, size = 5\<rparr>
         else if p = js ''/srv/raw'' then Inr \<lparr>isDirectory = False, size = 2\<rparr>
         else if p = js ''/srv/dir'' then Inr \<lparr>isDirectory = True, size = 4096\<rparr>
         else Inl (system_error ''ENOENT'' ''ENOENT: no such file or directory'')),
      fs_createReadStream = (\<lambda>p.
         if p = js ''/srv/a.txt'' then [104, 101, 108, 108, 111]
         else if p = js ''/srv/raw'' then [0, 255]
         else []),
      date_toUTCString = js ''Tue, 03 Nov 2026 12:00:00 GMT'',
      Number_toString_large = (\<lambda>n. js ''9007199254740992'')\<rparr>"

section \<open>Strings: the library functions\<close>

lemma js_indexOf_single:
  "js_indexOf s [c] = (if c \<in> set s then int (length (takeWhile (\<lambda>x. x \<noteq> c) s)) else - 1)"
  by (induction s) (auto simp: Let_def)

lemma js_slice_prefix: "0 \<le> k \<Longrightarrow> js_slice s 0 (Some k) = take (nat k) s"
  by (auto simp: js_slice_def Let_def min_def)

lemma js_slice_suffix: "0 \<le> k \<Longrightarrow> js_slice s k None = drop (nat k) s"
  by (auto simp: js_slice_def Let_def min_def)

lemma js_slice_minus_one: "js_slice s 0 (Some (- 1)) = butlast s"
proof -
  have "nat (int (length s) - 1) = length s - 1" by arith
  then show ?thesis
    by (simp add: js_slice_def Let_def max_def butlast_conv_take)
qed

lemma js_slash: "js ''/'' = [0x2F]"
  by (simp add: js_def)

lemma scheme_prefix: "AKARI_PROXY_PROTOCOL @ js ''://'' = js ''akari://''"
  by (simp add: AKARI_PROXY_PROTOCOL_def js_def)

lemma length_scheme_prefix: "length (js ''akari://'') = 8"
  by (simp add: js_def)

lemma path1_of_url: "js_slice (js ''akari://'' @ rest) (int (length (AKARI_PROXY_PROTOCOL @ js ''://''))) None = rest"
  by (simp add: scheme_prefix js_slice_suffix length_scheme_prefix)

lemma parse_url_with_slash:
  assumes "0x2F \<in> set rest"
  shows "parse_url (js ''akari://'' @ rest) =
           (js_trim (takeWhile (\<lambda>c. c \<noteq> 0x2F) rest),
            js_trim (drop (Suc (length (takeWhile (\<lambda>c. c \<noteq> 0x2F) rest))) rest))"
proof -
  have "nat (int (length (takeWhile (\<lambda>c. c \<noteq> 0x2F) rest)) + 1) = Suc (length (takeWhile (\<lambda>c. c \<noteq> 0x2F) rest))"
    by arith
  moreover have "take (length (takeWhile (\<lambda>c. c \<noteq> 0x2F) rest)) rest = takeWhile (\<lambda>c. c \<noteq> 0x2F) rest"
    by (rule takeWhile_eq_take [symmetric])
  ultimately show ?thesis
    using assms unfolding parse_url_def path1_of_url js_slash js_indexOf_single Let_def
    by (simp add: js_slice_prefix js_slice_suffix)
qed

lemma parse_url_without_slash:
  assumes "0x2F \<notin> set rest"
  shows "parse_url (js ''akari://'' @ rest) = (js_trim (butlast rest), js_trim rest)"
  using assms unfolding parse_url_def path1_of_url js_slash js_indexOf_single Let_def
  by (simp add: js_slice_minus_one js_slice_suffix)

lemma takeWhile_first_split:
  assumes "c \<in> set xs"
  shows "xs = takeWhile (\<lambda>x. x \<noteq> c) xs @ [c] @ drop (Suc (length (takeWhile (\<lambda>x. x \<noteq> c) xs))) xs"
proof -
  from assms have "dropWhile (\<lambda>x. x \<noteq> c) xs \<noteq> []"
    by (simp add: dropWhile_eq_Nil_conv)
  moreover from this have "hd (dropWhile (\<lambda>x. x \<noteq> c) xs) = c"
    using hd_dropWhile [of "\<lambda>x. x \<noteq> c" xs] by simp
  ultimately have d: "dropWhile (\<lambda>x. x \<noteq> c) xs = c # tl (dropWhile (\<lambda>x. x \<noteq> c) xs)"
    by (cases "dropWhile (\<lambda>x. x \<noteq> c) xs") auto
  have "drop (Suc (length (takeWhile (\<lambda>x. x \<noteq> c) xs))) xs = tl (dropWhile (\<lambda>x. x \<noteq> c) xs)"
    by (simp add: dropWhile_eq_drop drop_Suc tl_drop)
  with d show ?thesis
    using takeWhile_dropWhile_id [of "\<lambda>x. x \<noteq> c" xs] by simp
qed

lemma js_trim_surrounding: "trimmed_from s (js_trim s)"
proof -
  define t where "t = dropWhile is_js_whitespace s"
  define x where "x = dropWhile is_js_whitespace (rev t)"
  define pre where "pre = takeWhile is_js_whitespace s"
  define suf where "suf = rev (takeWhile is_js_whitespace (rev t))"
  have trim: "js_trim s = rev x"
    by (simp add: js_trim_def x_def t_def)
  have s: "s = pre @ t"
    by (simp add: pre_def t_def)
  have "rev t = takeWhile is_js_whitespace (rev t) @ x"
    by (simp add: x_def)
  then have "rev (rev t) = rev (takeWhile is_js_whitespace (rev t) @ x)"
    by simp
  then have t: "t = rev x @ suf"
    by (simp add: suf_def)
  have pre: "list_all is_js_whitespace pre"
    by (auto simp: pre_def list_all_iff dest: set_takeWhileD)
  have suf: "list_all is_js_whitespace suf"
    by (auto simp: suf_def list_all_iff dest: set_takeWhileD)
  have ends: "\<not> is_js_whitespace (hd (rev x)) \<and> \<not> is_js_whitespace (last (rev x))" if ne: "rev x \<noteq> []"
  proof
    from ne have "x \<noteq> []" by simp
    then have "\<not> is_js_whitespace (hd x)"
      unfolding x_def by (rule hd_dropWhile)
    with \<open>x \<noteq> []\<close> show "\<not> is_js_whitespace (last (rev x))"
      by (simp add: last_rev)
    from ne t have "t \<noteq> []" by auto
    then have "\<not> is_js_whitespace (hd t)"
      unfolding t_def by (rule hd_dropWhile)
    moreover from ne t have "hd t = hd (rev x)" by simp
    ultimately show "\<not> is_js_whitespace (hd (rev x))" by simp
  qed
  from s t have "s = pre @ rev x @ suf"
    by simp
  with pre suf ends show ?thesis
    unfolding trim trimmed_from_def by blast
qed


section \<open>The scheme interceptor: parsing and dispatch\<close>

lemma not_slash_conv: "([c] \<noteq> js ''/'') = (c \<noteq> 0x2F)"
  by (simp add: js_slash)

text \<open>
  C1. Let the request URI be \<open>akari://\<close> followed by \<open>rest\<close>, where \<open>rest\<close> contains a
  \<open>/\<close>. The interceptor splits \<open>rest\<close> at its first \<open>/\<close> into the part \<open>before\<close> it
  and the part \<open>after\<close> it. The domain is \<open>before\<close> and the remainder is \<open>after\<close>, each
  without its surrounding whitespace and with its inner whitespace kept. The handler is
  the registry's entry at exactly this domain string: an entry under any other key,
  for instance one that differs only in case, has no effect on the answer. In
  particular \<open>akari://files/a/b/c.txt\<close> gives the domain \<open>files\<close> and the remainder
  \<open>a/b/c.txt\<close>.
\<close>

theorem interceptor_splits_at_first_slash:
  assumes "url req = js ''akari://'' @ rest" and "set (js ''/'') \<subseteq> set rest"
  shows "(let before = takeWhile (\<lambda>c. [c] \<noteq> js ''/'') rest;
              after = drop (Suc (length before)) rest;
              domain = js_trim before;
              uri = js_trim after
          in rest = before @ js ''/'' @ after \<and>
             parse_url (url req) = (domain, uri) \<and>
             trimmed_from before domain \<and> trimmed_from after uri \<and>
             handle_akari this req =
               (case domainRegistry this domain of
                  Some handler \<Rightarrow> handler uri req
                | None \<Rightarrow> Inr (no_handler_response req)) \<and>
             (\<forall>k v. k \<noteq> domain \<longrightarrow>
                handle_akari (this\<lparr>domainRegistry := (domainRegistry this)(k := v)\<rparr>) req =
                handle_akari this req))
         \<and> parse_url (js ''akari://files/a/b/c.txt'') = (js ''files'', js ''a/b/c.txt'')"
proof -
  from assms(2) have slash: "0x2F \<in> set rest"
    by (simp add: js_slash)
  have split: "rest = takeWhile (\<lambda>c. c \<noteq> 0x2F) rest @ js ''/'' @
      drop (Suc (length (takeWhile (\<lambda>c. c \<noteq> 0x2F) rest))) rest"
    using takeWhile_first_split [OF slash] by (simp add: js_slash)
  have parse: "parse_url (url req) =
      (js_trim (takeWhile (\<lambda>c. c \<noteq> 0x2F) rest),
       js_trim (drop (Suc (length (takeWhile (\<lambda>c. c \<noteq> 0x2F) rest))) rest))"
    using parse_url_with_slash [OF slash] assms(1) by simp
  have example: "parse_url (js ''akari://files/a/b/c.txt'') = (js ''files'', js ''a/b/c.txt'')"
    by (simp add: parse_url_def js_def AKARI_PROXY_PROTOCOL_def js_slice_def js_trim_def
        is_js_whitespace_def Let_def)
  show ?thesis
    unfolding Let_def not_slash_conv
    using split parse example
    by (simp add: handle_akari_def js_trim_surrounding)
qed

theorem interceptor_splits_at_first_slash_witness:
  "url (get_request (js ''akari://files/a/b/c.txt'')) = js ''akari://'' @ js ''files/a/b/c.txt'' \<and>
   set (js ''/'') \<subseteq> set (js ''files/a/b/c.txt'') \<and>
   parse_url (url (get_request (js ''akari://files/a/b/c.txt''))) = (js ''files'', js ''a/b/c.txt'') \<and>
   handle_akari (fresh_shard\<lparr>domainRegistry := [js ''files'' \<mapsto> echo_handler]\<rparr>)
       (get_request (js ''akari://files/a/b/c.txt'')) =
     echo_handler (js ''a/b/c.txt'') (get_request (js ''akari://files/a/b/c.txt''))"
proof -
  have u: "url (get_request (js ''akari://files/a/b/c.txt'')) = js ''akari://'' @ js ''files/a/b/c.txt''"
    by (simp add: get_request_def js_def)
  have sl: "set (js ''/'') \<subseteq> set (js ''files/a/b/c.txt'')"
    by (simp add: js_def)
  have b: "takeWhile (\<lambda>c. [c] \<noteq> js ''/'') (js ''files/a/b/c.txt'') = js ''files''"
    by (simp add: js_def)
  have a: "drop (Suc (length (js ''files''))) (js ''files/a/b/c.txt'') = js ''a/b/c.txt''"
    by (simp add: js_def)
  have t1: "js_trim (js ''files'') = js ''files''"
    by (simp add: js_trim_def js_def is_js_whitespace_def)
  have t2: "js_trim (js ''a/b/c.txt'') = js ''a/b/c.txt''"
    by (simp add: js_trim_def js_def is_js_whitespace_def)
  note split = interceptor_splits_at_first_slash [OF u sl,
      of "fresh_shard\<lparr>domainRegistry := [js ''files'' \<mapsto> echo_handler]\<rparr>",
      unfolded Let_def b a t1 t2]
  from split have p: "parse_url (url (get_request (js ''akari://files/a/b/c.txt''))) =
      (js ''files'', js ''a/b/c.txt'')"
    by blast
  from split have "handle_akari (fresh_shard\<lparr>domainRegistry := [js ''files'' \<mapsto> echo_handler]\<rparr>)
       (get_request (js ''akari://files/a/b/c.txt'')) =
     (case domainRegistry (fresh_shard\<lparr>domainRegistry := [js ''files'' \<mapsto> echo_handler]\<rparr>)
             (js ''files'') of
        Some handler \<Rightarrow> handler (js ''a/b/c.txt'') (get_request (js ''akari://files/a/b/c.txt''))
      | None \<Rightarrow> Inr (no_handler_response (get_request (js ''akari://files/a/b/c.txt''))))"
    by blast
  then have h: "handle_akari (fresh_shard\<lparr>domainRegistry := [js ''files'' \<mapsto> echo_handler]\<rparr>)
       (get_request (js ''akari://files/a/b/c.txt'')) =
     echo_handler (js ''a/b/c.txt'') (get_request (js ''akari://files/a/b/c.txt''))"
    by simp
  from u sl p h show ?thesis
    by blast
qed





text \<open>
  C3. When the registry has no handler for the parsed domain, the answer is the
  response with status 404, status text \<open>Not Found\<close>, the single header
  \<open>Content-Type: text/plain\<close> and the body \<open>No handler for\<close> followed by the request
  URI as it was received.
\<close>

theorem unregistered_domain_not_found:
  assumes "domainRegistry this (fst (parse_url (url req))) = None"
  shows "handle_akari this req =
           Inr \<lparr>status = 404,
                statusText = js ''Not Found'',
                headers = [(js ''Content-Type'', js ''text/plain'')],
                resp_body = Text (js ''No handler for '' @ url req)\<rparr>"
  using assms
  by (cases "parse_url (url req)")
     (simp add: handle_akari_def no_handler_response_def new_Response_def)

theorem unregistered_domain_not_found_witness:
  "domainRegistry fresh_shard (fst (parse_url (url (get_request (js ''akari://files/a/b/c.txt''))))) = None \<and>
   handle_akari fresh_shard (get_request (js ''akari://files/a/b/c.txt'')) =
     Inr \<lparr>status = 404,
          statusText = js ''Not Found'',
          headers = [(js ''Content-Type'', js ''text/plain'')],
          resp_body = Text (js ''No handler for akari://files/a/b/c.txt'')\<rparr>"
proof -
  have absent: "domainRegistry fresh_shard
      (fst (parse_url (url (get_request (js ''akari://files/a/b/c.txt''))))) = None"
    by (simp add: fresh_shard_def)
  from unregistered_domain_not_found [OF absent] absent show ?thesis
    by (simp add: get_request_def js_def)
qed

section \<open>The domain registry: register and unregister\<close>

lemma registerDomain_absent:
  "domainRegistry this d = None \<Longrightarrow>
     registerDomain this d h = (Inr (), this\<lparr>domainRegistry := (domainRegistry this)(d \<mapsto> h)\<rparr>)"
  by (simp add: registerDomain_def)

lemma registerDomain_present:
  "domainRegistry this d = Some h \<Longrightarrow>
     registerDomain this d h2 =
       (Inl (Error (js ''Domain '' @ d @ js '' is already registered'')), this)"
  by (simp add: registerDomain_def)

lemma unregisterDomain_absent:
  "domainRegistry this d = None \<Longrightarrow>
     unregisterDomain this d =
       (Inl (Error (js ''Domain '' @ d @ js '' is not registered'')), this)"
  by (simp add: unregisterDomain_def)

lemma unregisterDomain_present:
  "domainRegistry this d = Some h \<Longrightarrow>
     unregisterDomain this d = (Inr (), this\<lparr>domainRegistry := (domainRegistry this)(d := None)\<rparr>)"
  by (simp add: unregisterDomain_def)

text \<open>
  C4. When the domain \<open>d\<close> is not in the registry, \<open>registerDomain\<close> returns, the
  lookup of \<open>d\<close> then gives the registered handler, every other domain and the rest of
  the shard are as before, and a second registration of \<open>d\<close> throws the error
  \<open>Domain d is already registered\<close> and leaves the shard as it was. When \<open>d\<close> is in the
  registry with handler \<open>h\<close>, a registration of \<open>d\<close> throws that error and the shard,
  hence the lookup of \<open>d\<close>, is unchanged.
\<close>

theorem register_new_then_duplicate:
  "(domainRegistry this d = None \<longrightarrow>
      (let after = snd (registerDomain this d h) in
         fst (registerDomain this d h) = Inr () \<and>
         domainRegistry after d = Some h \<and>
         (\<forall>d'. d' \<noteq> d \<longrightarrow> domainRegistry after d' = domainRegistry this d') \<and>
         mime_getType after = mime_getType this \<and>
         registerDomain after d h2 =
           (Inl (Error (js ''Domain '' @ d @ js '' is already registered'')), after))) \<and>
   (domainRegistry this d = Some h \<longrightarrow>
      registerDomain this d h2 =
        (Inl (Error (js ''Domain '' @ d @ js '' is already registered'')), this))"
proof (intro conjI impI)
  assume absent: "domainRegistry this d = None"
  define stored where "stored = this\<lparr>domainRegistry := (domainRegistry this)(d \<mapsto> h)\<rparr>"
  from absent have first: "registerDomain this d h = (Inr (), stored)"
    unfolding stored_def by (rule registerDomain_absent)
  have "domainRegistry stored d = Some h"
    by (simp add: stored_def)
  then have second: "registerDomain stored d h2 =
      (Inl (Error (js ''Domain '' @ d @ js '' is already registered'')), stored)"
    by (rule registerDomain_present)
  show "let after = snd (registerDomain this d h) in
         fst (registerDomain this d h) = Inr () \<and>
         domainRegistry after d = Some h \<and>
         (\<forall>d'. d' \<noteq> d \<longrightarrow> domainRegistry after d' = domainRegistry this d') \<and>
         mime_getType after = mime_getType this \<and>
         registerDomain after d h2 =
           (Inl (Error (js ''Domain '' @ d @ js '' is already registered'')), after)"
    unfolding Let_def first using second by (simp add: stored_def)
next
  assume "domainRegistry this d = Some h"
  then show "registerDomain this d h2 =
      (Inl (Error (js ''Domain '' @ d @ js '' is already registered'')), this)"
    by (rule registerDomain_present)
qed

theorem register_new_then_duplicate_witness:
  "domainRegistry fresh_shard (js ''files'') = None \<and>
   fst (registerDomain fresh_shard (js ''files'') echo_handler) = Inr () \<and>
   domainRegistry (snd (registerDomain fresh_shard (js ''files'') echo_handler)) (js ''files'')
     = Some echo_handler \<and>
   registerDomain (snd (registerDomain fresh_shard (js ''files'') echo_handler)) (js ''files'') other_handler =
     (Inl (Error (js ''Domain files is already registered'')),
      snd (registerDomain fresh_shard (js ''files'') echo_handler))"
proof -
  have absent: "domainRegistry fresh_shard (js ''files'') = None"
    by (simp add: fresh_shard_def)
  define s1 where "s1 = snd (registerDomain fresh_shard (js ''files'') echo_handler)"
  note new = register_new_then_duplicate [of fresh_shard "js ''files''" echo_handler other_handler,
      THEN conjunct1, rule_format, OF absent, unfolded Let_def, folded s1_def]
  then have present: "domainRegistry s1 (js ''files'') = Some echo_handler"
    by blast
  note dup = register_new_then_duplicate [of s1 "js ''files''" echo_handler other_handler,
      THEN conjunct2, rule_format, OF present]
  have msg: "js ''Domain '' @ js ''files'' @ js '' is already registered'' =
      js ''Domain files is already registered''"
    by (simp add: js_def)
  from absent new dup show ?thesis
    unfolding s1_def [symmetric] msg by blast
qed

text \<open>
  C5. When the domain \<open>d\<close> is not in the registry, \<open>unregisterDomain\<close> throws the error
  \<open>Domain d is not registered\<close> and the shard is unchanged. When \<open>d\<close> is in the registry,
  the call returns, \<open>d\<close> is no longer in the registry, and every other domain and the
  rest of the shard are as before.
\<close>

theorem unregister_unknown_and_known:
  "(domainRegistry this d = None \<longrightarrow>
      unregisterDomain this d =
        (Inl (Error (js ''Domain '' @ d @ js '' is not registered'')), this)) \<and>
   (domainRegistry this d = Some h \<longrightarrow>
      (let after = snd (unregisterDomain this d) in
         fst (unregisterDomain this d) = Inr () \<and>
         domainRegistry after d = None \<and>
         (\<forall>d'. d' \<noteq> d \<longrightarrow> domainRegistry after d' = domainRegistry this d') \<and>
         mime_getType after = mime_getType this))"
proof (intro conjI impI)
  assume "domainRegistry this d = None"
  then show "unregisterDomain this d =
      (Inl (Error (js ''Domain '' @ d @ js '' is not registered'')), this)"
    by (rule unregisterDomain_absent)
next
  assume "domainRegistry this d = Some h"
  then have removed: "unregisterDomain this d =
      (Inr (), this\<lparr>domainRegistry := (domainRegistry this)(d := None)\<rparr>)"
    by (rule unregisterDomain_present)
  show "let after = snd (unregisterDomain this d) in
         fst (unregisterDomain this d) = Inr () \<and>
         domainRegistry after d = None \<and>
         (\<forall>d'. d' \<noteq> d \<longrightarrow> domainRegistry after d' = domainRegistry this d') \<and>
         mime_getType after = mime_getType this"
    unfolding Let_def removed by simp
qed

theorem unregister_unknown_and_known_witness:
  "domainRegistry fresh_shard (js ''files'') = None \<and>
   unregisterDomain fresh_shard (js ''files'') =
     (Inl (Error (js ''Domain files is not registered'')), fresh_shard) \<and>
   domainRegistry (fresh_shard\<lparr>domainRegistry := [js ''files'' \<mapsto> echo_handler]\<rparr>) (js ''files'')
     = Some echo_handler \<and>
   fst (unregisterDomain (fresh_shard\<lparr>domainRegistry := [js ''files'' \<mapsto> echo_handler]\<rparr>) (js ''files''))
     = Inr () \<and>
   domainRegistry
     (snd (unregisterDomain (fresh_shard\<lparr>domainRegistry := [js ''files'' \<mapsto> echo_handler]\<rparr>) (js ''files'')))
     (js ''files'') = None"
proof -
  have absent: "domainRegistry fresh_shard (js ''files'') = None"
    by (simp add: fresh_shard_def)
  have present: "domainRegistry (fresh_shard\<lparr>domainRegistry := [js ''files'' \<mapsto> echo_handler]\<rparr>)
      (js ''files'') = Some echo_handler"
    by simp
  note unknown = unregister_unknown_and_known [of fresh_shard "js ''files''" echo_handler,
      THEN conjunct1, rule_format, OF absent]
  note known = unregister_unknown_and_known
      [of "fresh_shard\<lparr>domainRegistry := [js ''files'' \<mapsto> echo_handler]\<rparr>" "js ''files''" echo_handler,
      THEN conjunct2, rule_format, OF present, unfolded Let_def]
  have msg: "js ''Domain '' @ js ''files'' @ js '' is not registered'' =
      js ''Domain files is not registered''"
    by (simp add: js_def)
  from absent present unknown known show ?thesis
    unfolding msg by blast
qed

text \<open>
  C10. When the domain \<open>d\<close> is not in the registry, registering it and then
  unregistering it both return and give back the shard that was there before, so every
  lookup agrees with the one before; registering \<open>d\<close> once more, with another handler,
  returns again and the lookup of \<open>d\<close> gives that handler.
\<close>

theorem register_unregister_roundtrip:
  assumes "domainRegistry this d = None"
  shows "fst (registerDomain this d h) = Inr () \<and>
         unregisterDomain (snd (registerDomain this d h)) d = (Inr (), this) \<and>
         fst (registerDomain (snd (unregisterDomain (snd (registerDomain this d h)) d)) d h2) = Inr () \<and>
         domainRegistry
           (snd (registerDomain (snd (unregisterDomain (snd (registerDomain this d h)) d)) d h2)) d
           = Some h2"
proof -
  have reg: "registerDomain this d h = (Inr (), this\<lparr>domainRegistry := (domainRegistry this)(d \<mapsto> h)\<rparr>)"
    using assms by (rule registerDomain_absent)
  have "((domainRegistry this)(d \<mapsto> h))(d := None) = domainRegistry this"
    using assms by (simp add: fun_upd_idem)
  then have unreg: "unregisterDomain (this\<lparr>domainRegistry := (domainRegistry this)(d \<mapsto> h)\<rparr>) d = (Inr (), this)"
    by (simp add: unregisterDomain_def)
  show ?thesis
    using assms by (simp add: reg unreg registerDomain_absent)
qed

theorem register_unregister_roundtrip_witness:
  "domainRegistry fresh_shard (js ''files'') = None \<and>
   unregisterDomain (snd (registerDomain fresh_shard (js ''files'') echo_handler)) (js ''files'')
     = (Inr (), fresh_shard) \<and>
   fst (registerDomain
         (snd (unregisterDomain (snd (registerDomain fresh_shard (js ''files'') echo_handler)) (js ''files'')))
         (js ''files'') other_handler) = Inr ()"
proof -
  have absent: "domainRegistry fresh_shard (js ''files'') = None"
    by (simp add: fresh_shard_def)
  from register_unregister_roundtrip [OF absent, of echo_handler other_handler] absent
  show ?thesis by blast
qed

text \<open>
  C9, as the code has it. The empty string is a domain name like any other:
  \<open>registerDomain\<close> stores it when the registry does not hold it, and throws only when
  the registry holds it already.
\<close>

theorem empty_domain_like_any_other:
  "(domainRegistry this (js '''') = None \<longrightarrow>
      registerDomain this (js '''') h =
        (Inr (), this\<lparr>domainRegistry := (domainRegistry this)(js '''' \<mapsto> h)\<rparr>)) \<and>
   (domainRegistry this (js '''') = Some h' \<longrightarrow>
      registerDomain this (js '''') h =
        (Inl (Error (js ''Domain '' @ js '''' @ js '' is already registered'')), this))"
proof (intro conjI impI)
  assume "domainRegistry this (js '''') = None"
  then show "registerDomain this (js '''') h =
      (Inr (), this\<lparr>domainRegistry := (domainRegistry this)(js '''' \<mapsto> h)\<rparr>)"
    by (rule registerDomain_absent)
next
  assume "domainRegistry this (js '''') = Some h'"
  then show "registerDomain this (js '''') h =
      (Inl (Error (js ''Domain '' @ js '''' @ js '' is already registered'')), this)"
    by (rule registerDomain_present)
qed

theorem empty_domain_like_any_other_witness:
  "domainRegistry fresh_shard (js '''') = None \<and>
   registerDomain fresh_shard (js '''') echo_handler =
     (Inr (), fresh_shard\<lparr>domainRegistry := [js '''' \<mapsto> echo_handler]\<rparr>) \<and>
   domainRegistry (fresh_shard\<lparr>domainRegistry := [js '''' \<mapsto> echo_handler]\<rparr>) (js '''')
     = Some echo_handler \<and>
   registerDomain (fresh_shard\<lparr>domainRegistry := [js '''' \<mapsto> echo_handler]\<rparr>) (js '''') other_handler =
     (Inl (Error (js ''Domain  is already registered'')),
      fresh_shard\<lparr>domainRegistry := [js '''' \<mapsto> echo_handler]\<rparr>)"
proof -
  have absent: "domainRegistry fresh_shard (js '''') = None"
    by (simp add: fresh_shard_def)
  have present: "domainRegistry (fresh_shard\<lparr>domainRegistry := [js '''' \<mapsto> echo_handler]\<rparr>) (js '''')
      = Some echo_handler"
    by simp
  have reg: "domainRegistry fresh_shard = Map.empty"
    by (simp add: fresh_shard_def)
  have msg: "js ''Domain '' @ js '''' @ js '' is already registered'' = js ''Domain  is already registered''"
    by (simp add: js_def)
  note new = empty_domain_like_any_other [where this = fresh_shard and h = echo_handler,
      THEN conjunct1, rule_format, OF absent, unfolded reg]
  note dup = empty_domain_like_any_other
      [where this = "fresh_shard\<lparr>domainRegistry := [js '''' \<mapsto> echo_handler]\<rparr>"
         and h = other_handler and h' = echo_handler,
      THEN conjunct2, rule_format, OF present, unfolded msg]
  from absent present new dup show ?thesis by blast
qed

text \<open>
  C9, as stated: no entry with the empty string as domain is ever present. This fails
  on the shard without any domain, where the registration of the empty string returns
  and the entry is present afterwards.
\<close>

theorem register_accepts_empty_domain:
  "length (js '''') = 0 \<and>
   fst (registerDomain fresh_shard (js '''') echo_handler) = Inr () \<and>
   domainRegistry (snd (registerDomain fresh_shard (js '''') echo_handler)) (js '''') = Some echo_handler"
  by (simp add: registerDomain_def fresh_shard_def js_def)

section \<open>The local file responder: status and headers\<close>

lemma local_file_directory:
  assumes "fs_access env (path_resolve env uri) = None"
    and "fs_stat env (path_resolve env uri) = Inr st" and "isDirectory st"
  shows "toLocalFileResponse this env uri =
           \<lparr>status = 403, statusText = [],
            headers = [(js ''Content-Type'', js ''text/plain'')],
            resp_body = Text (js ''Cannot read directory: '' @ uri)\<rparr>"
  using assms by (simp add: toLocalFileResponse_def local_file_try_def new_Response_def)

lemma local_file_catch_eq:
  "local_file_catch e =
     \<lparr>status = (if code e = Some (js ''ENOENT'') then 404
                else if code e = Some (js ''EACCES'') then 403 else 500),
      statusText = [],
      headers = [(js ''Content-Type'', js ''text/plain'')],
      resp_body = Text (message e)\<rparr>"
  by (simp add: local_file_catch_def new_Response_def)

lemma local_file_access_fails:
  assumes "fs_access env (path_resolve env uri) = Some e"
  shows "toLocalFileResponse this env uri = local_file_catch e"
  using assms by (simp add: toLocalFileResponse_def local_file_try_def)

lemma local_file_stat_fails:
  assumes "fs_access env (path_resolve env uri) = None"
    and "fs_stat env (path_resolve env uri) = Inl e"
  shows "toLocalFileResponse this env uri = local_file_catch e"
  using assms by (simp add: toLocalFileResponse_def local_file_try_def)

lemma example_paths:
  "path_resolve example_env (js ''dir'') = js ''/srv/dir''"
  "path_resolve example_env (js ''none'') = js ''/srv/none''"
  "path_resolve example_env (js ''key'') = js ''/srv/key''"
  "path_resolve example_env (js ''loop'') = js ''/srv/loop''"
  "path_resolve example_env (js ''a.txt'') = js ''/srv/a.txt''"
  "path_resolve example_env (js ''raw'') = js ''/srv/raw''"
  by (simp_all add: example_env_def js_def)

lemma example_access:
  "fs_access example_env (js ''/srv/dir'') = None"
  "fs_access example_env (js ''/srv/a.txt'') = None"
  "fs_access example_env (js ''/srv/raw'') = None"
  "fs_access example_env (js ''/srv/none'') = Some (system_error ''ENOENT'' ''ENOENT: no such file or directory'')"
  "fs_access example_env (js ''/srv/key'') = Some (system_error ''EACCES'' ''EACCES: permission denied'')"
  "fs_access example_env (js ''/srv/loop'') = Some (system_error ''ELOOP'' ''ELOOP: too many symbolic links'')"
  by (simp_all add: example_env_def js_def)

lemma example_stat:
  "fs_stat example_env (js ''/srv/dir'') = Inr \<lparr>isDirectory = True, size = 4096\<rparr>"
  "fs_stat example_env (js ''/srv/a.txt'') = Inr \<lparr>isDirectory = False, size = 5\<rparr>"
  "fs_stat example_env (js ''/srv/raw'') = Inr \<lparr>isDirectory = False, size = 2\<rparr>"
  by (simp_all add: example_env_def js_def)



lemma decimal_value_snoc: "decimal_value (ds @ [d]) = 10 * decimal_value ds + (unat d - 48)"
  by (simp add: decimal_value_def)


lemma digit_of_unat:
  assumes "is_decimal_digit d"
  shows "d = 48 + of_nat (unat d - 48)" and "unat d - 48 < 10"
proof -
  from assms have range: "48 \<le> unat d" "unat d \<le> 57"
    by (simp_all add: is_decimal_digit_def)
  then show "unat d - 48 < 10"
    by arith
  from range have "unat d = 48 + (unat d - 48)"
    by arith
  then have "of_nat (unat d) = (of_nat (48 + (unat d - 48)) :: code_unit)"
    by simp
  then show "d = 48 + of_nat (unat d - 48)"
    by simp
qed


lemma js_zero: "js ''0'' = [48]"
  by (simp add: js_def)

lemma decimal_digits_small: "n < 10 \<Longrightarrow> decimal_digits n = [48 + of_nat n]"
  by simp

lemma decimal_digits_large:
  "\<not> n < 10 \<Longrightarrow> decimal_digits n = decimal_digits (n div 10) @ [48 + of_nat (n mod 10)]"
  by simp

declare decimal_digits.simps [simp del]






lemma decimal_numeral_unique: "decimal_numeral_of n ds \<Longrightarrow> ds = decimal_digits n"
proof (induction ds arbitrary: n rule: rev_induct)
  case Nil
  then show ?case
    by (simp add: decimal_numeral_of_def)
next
  case (snoc d xs)
  from snoc.prems have digit: "is_decimal_digit d" and digits: "list_all is_decimal_digit xs"
    and lead: "xs @ [d] = js ''0'' \<or> hd (xs @ [d]) \<noteq> 48"
    and val: "10 * decimal_value xs + (unat d - 48) = n"
    by (simp_all add: decimal_numeral_of_def decimal_value_snoc)
  note d = digit_of_unat [OF digit]
  show ?case
  proof (cases "xs = []")
    case True
    with val have "n = unat d - 48"
      by (simp add: decimal_value_def)
    with d True show ?thesis
      by (simp add: decimal_digits_small)
  next
    case False
    with lead have hd: "hd xs \<noteq> 48"
      by (auto simp: js_zero)
    with False digits have "decimal_numeral_of (decimal_value xs) xs"
      by (simp add: decimal_numeral_of_def)
    then have xs: "xs = decimal_digits (decimal_value xs)"
      by (rule snoc.IH)
    have "decimal_value xs \<noteq> 0"
    proof
      assume "decimal_value xs = 0"
      with xs have "xs = [48]"
        by (simp add: decimal_digits_small)
      with hd show False
        by simp
    qed
    with val d(2) have "\<not> n < 10" and "n div 10 = decimal_value xs" and "n mod 10 = unat d - 48"
      by auto
    with xs d(1) show ?thesis
      by (simp add: decimal_digits_large)
  qed
qed


text \<open>
  C6. When the resolved path can be accessed and is a directory, the answer has status
  403, the header \<open>Content-Type: text/plain\<close> and a text body that names the
  directory; no listing is produced. When the access check fails, or the \<open>stat\<close> call
  after it, with the error \<open>e\<close>, the status is 404 if the code of \<open>e\<close> is \<open>ENOENT\<close>, 403
  if it is \<open>EACCES\<close> and 500 otherwise, the body is the message of \<open>e\<close> and the header
  is \<open>Content-Type: text/plain\<close>.
\<close>

theorem local_file_directory_and_failures:
  "(fs_access env (path_resolve env uri) = None \<and>
    fs_stat env (path_resolve env uri) = Inr st \<and> isDirectory st \<longrightarrow>
      toLocalFileResponse this env uri =
        \<lparr>status = 403, statusText = [],
         headers = [(js ''Content-Type'', js ''text/plain'')],
         resp_body = Text (js ''Cannot read directory: '' @ uri)\<rparr>) \<and>
   (fs_access env (path_resolve env uri) = Some e \<or>
    fs_access env (path_resolve env uri) = None \<and> fs_stat env (path_resolve env uri) = Inl e \<longrightarrow>
      toLocalFileResponse this env uri =
        \<lparr>status = (if code e = Some (js ''ENOENT'') then 404
                   else if code e = Some (js ''EACCES'') then 403 else 500),
         statusText = [],
         headers = [(js ''Content-Type'', js ''text/plain'')],
         resp_body = Text (message e)\<rparr>)"
  using local_file_directory [of env uri st this]
    local_file_access_fails [of env uri e this] local_file_stat_fails [of env uri e this]
  by (auto simp: local_file_catch_eq)

theorem local_file_directory_and_failures_witness:
  "fs_access example_env (path_resolve example_env (js ''dir'')) = None \<and>
   isDirectory \<lparr>isDirectory = True, size = 4096\<rparr> \<and>
   fs_stat example_env (path_resolve example_env (js ''dir'')) = Inr \<lparr>isDirectory = True, size = 4096\<rparr> \<and>
   toLocalFileResponse fresh_shard example_env (js ''dir'') =
     \<lparr>status = 403, statusText = [],
      headers = [(js ''Content-Type'', js ''text/plain'')],
      resp_body = Text (js ''Cannot read directory: dir'')\<rparr> \<and>
   toLocalFileResponse fresh_shard example_env (js ''none'') =
     \<lparr>status = 404, statusText = [],
      headers = [(js ''Content-Type'', js ''text/plain'')],
      resp_body = Text (js ''ENOENT: no such file or directory'')\<rparr> \<and>
   toLocalFileResponse fresh_shard example_env (js ''key'') =
     \<lparr>status = 403, statusText = [],
      headers = [(js ''Content-Type'', js ''text/plain'')],
      resp_body = Text (js ''EACCES: permission denied'')\<rparr> \<and>
   toLocalFileResponse fresh_shard example_env (js ''loop'') =
     \<lparr>status = 500, statusText = [],
      headers = [(js ''Content-Type'', js ''text/plain'')],
      resp_body = Text (js ''ELOOP: too many symbolic links'')\<rparr>"
proof -
  have codes: "js ''ENOENT'' \<noteq> js ''EACCES''" "js ''ELOOP'' \<noteq> js ''ENOENT''" "js ''ELOOP'' \<noteq> js ''EACCES''"
    by (simp_all add: js_def)
  have body: "js ''Cannot read directory: '' @ js ''dir'' = js ''Cannot read directory: dir''"
    by (simp add: js_def)
  note dir = local_file_directory_and_failures
    [where env = example_env and uri = "js ''dir''" and this = fresh_shard
       and st = "\<lparr>isDirectory = True, size = 4096\<rparr>", THEN conjunct1, rule_format]
  note fails = local_file_directory_and_failures
    [where env = example_env and this = fresh_shard, THEN conjunct2, rule_format, OF disjI1]
  show ?thesis
    using dir fails [of "js ''none''"] fails [of "js ''key''"] fails [of "js ''loop''"] codes
    by (simp add: example_paths example_access example_stat system_error_def body)
qed



section \<open>The stream adapter: what reaches the push side\<close>

lemma read_loop_reads_chunks:
  "reads_chunks read s cs \<Longrightarrow> read_loop read s yielded = Some (yielded @ cs)"
proof (induction cs arbitrary: s yielded)
  case Nil
  then show ?case
    by (subst read_loop.simps) (auto split: prod.splits)
next
  case (Cons c cs)
  from Cons.prems have here: "fst (read s) = Chunk c" and rest: "reads_chunks read (snd (read s)) cs"
    by simp_all
  from here have "read_loop read s yielded = read_loop read (snd (read s)) (yielded @ [c])"
    by (subst read_loop.simps) (auto split: prod.splits)
  also have "\<dots> = Some ((yielded @ [c]) @ cs)"
    using rest by (rule Cons.IH)
  finally show ?case by simp
qed

lemma read_loop_rejected:
  "fst (read s) = Rejected e \<Longrightarrow> read_loop read s yielded = Some yielded"
  by (subst read_loop.simps) (auto split: prod.splits)

lemma reads_chunks_list_reader: "reads_chunks list_reader cs cs"
  by (induction cs) simp_all

text \<open>
  C8. When the pull side delivers the chunks \<open>chunks\<close> and then reports \<open>done\<close>, the loop
  returns, and the push side receives exactly these chunks, each once and in the same
  order, followed by the end of the stream, which is signalled once.
\<close>

theorem stream_adapter_roundtrip:
  assumes "reads_chunks read s chunks"
  shows "convertWebStreamToNodeStream read s = Some (map Data chunks @ [End]) \<and>
         count_list (map Data chunks @ [End]) End = 1"
proof -
  have "count_list (map Data chunks) End = 0"
    by (induction chunks) simp_all
  with read_loop_reads_chunks [OF assms, of "[]"] show ?thesis
    by (simp add: convertWebStreamToNodeStream_def Readable_from_def)
qed

theorem stream_adapter_roundtrip_witness:
  "reads_chunks list_reader [[1, 2], [], [3]] [[1, 2], [], [3]] \<and>
   convertWebStreamToNodeStream list_reader [[1, 2], [], [3]] =
     Some [Data [1, 2], Data [], Data [3], End]"
proof -
  have reads: "reads_chunks list_reader [[1, 2], [], [3]] [[1, 2], [], [3]]"
    by simp
  from stream_adapter_roundtrip [OF reads] reads show ?thesis
    by simp
qed

end
